theory Spec2Isabelle
  imports Complex_Main
begin

section \<open>The control-signal preparation of the NEWT timbre-transfer notebook\<close>

text \<open>
  The notebook cell \<^emph>\<open>Adjust Control Signals\<close> turns the extracted pitch curve \<open>f0\<close>, its
  per-frame \<open>confidence\<close> and the \<open>loudness\<close> curve into the two control rows of the
  synthesis model. The arrays are one-dimensional; their entries are idealised as real
  numbers, so every arithmetic step below is exact (rounding to 32-bit floats, infinities
  and NaN are outside the model). In particular \<open>x / 0\<close> is \<open>0\<close> in HOL while numpy
  yields an infinity or NaN: every statement below that depends on the value of a quotient
  assumes its divisor to be nonzero.
\<close>

subsection \<open>Errors and tensors\<close>

text \<open>
  \<open>ValueError\<close> is numpy's failed broadcast, \<open>RuntimeError\<close> is raised by torch
  (\<open>conv1d\<close>, \<open>ones\<close>, \<open>stack\<close>, \<open>expand\<close>), \<open>NameError\<close> is Python's read of a global
  that no cell has assigned yet.
\<close>

datatype error = ValueError | RuntimeError | NameError

text \<open>
  The tensors the cell binds to \<open>f0_t\<close>, \<open>loud_norm_t\<close> and \<open>f0_norm_t\<close> have rank one, or
  rank zero after a \<open>squeeze()\<close> of a single entry.
\<close>

datatype tensor = T0 real | T1 "real list"

fun tmap :: "(real \<Rightarrow> real) \<Rightarrow> tensor \<Rightarrow> tensor" where
  "tmap g (T0 x) = T0 (g x)"
| "tmap g (T1 xs) = T1 (map g xs)"

text \<open>The entries of a tensor, in order.\<close>

fun elems :: "tensor \<Rightarrow> real list" where
  "elems (T0 x) = [x]"
| "elems (T1 xs) = xs"

text \<open>
  What \<open>torch.stack((a, b), dim=0)\<close> returns: two rank-zero tensors give the vector
  \<open>[a, b]\<close> of shape \<open>(2)\<close>, two rank-one tensors of the same length \<open>T\<close> give the matrix of
  shape \<open>(2, T)\<close> whose row 0 is \<open>a\<close> and whose row 1 is \<open>b\<close>.
\<close>

datatype stacked = S1 real real | S2 "real list" "real list"

subsection \<open>The numpy steps\<close>

text \<open>
  An elementwise binary operation on two one-dimensional arrays: equal lengths combine
  entry by entry, an array of length one is stretched to the other's length, anything else
  cannot be broadcast.
\<close>

definition np_broadcast :: "('a \<Rightarrow> 'b \<Rightarrow> 'c) \<Rightarrow> 'a list \<Rightarrow> 'b list \<Rightarrow> error + 'c list" where
  "np_broadcast g xs ys =
     (if length xs = length ys then Inr (map2 g xs ys)
      else if length xs = 1 then Inr (map (g (hd xs)) ys)
      else if length ys = 1 then Inr (map (\<lambda>x. g x (hd ys)) xs)
      else Inl ValueError)"

text \<open>\<open>a > c\<close> for an array and a scalar: the boolean mask.\<close>

definition np_gt :: "real list \<Rightarrow> real \<Rightarrow> bool list" where
  "np_gt xs c = map (\<lambda>x. c < x) xs"

text \<open>A float times a boolean: \<open>True\<close> counts as 1 and \<open>False\<close> as 0.\<close>

definition mul_mask :: "real \<Rightarrow> bool \<Rightarrow> real" where
  "mul_mask x b = x * of_bool b"

text \<open>\<^verbatim>\<open>f0_filtered = f0 * (confidence > pitch_conf_filter)\<close>\<close>

definition f0_filtered :: "real list \<Rightarrow> real list \<Rightarrow> real \<Rightarrow> error + real list" where
  "f0_filtered f0 confidence pitch_conf_filter =
     np_broadcast mul_mask f0 (np_gt confidence pitch_conf_filter)"

text \<open>\<^verbatim>\<open>loudness_filtered = loudness * (confidence > loudness_conf_filter)\<close>\<close>

definition loudness_filtered :: "real list \<Rightarrow> real list \<Rightarrow> real \<Rightarrow> error + real list" where
  "loudness_filtered loudness confidence loudness_conf_filter =
     np_broadcast mul_mask loudness (np_gt confidence loudness_conf_filter)"

text \<open>
  \<^verbatim>\<open>f0_shifted = f0_filtered * (2 ** octave_shift)\<close>: \<open>octave_shift\<close> is a Python integer,
  and \<open>2 ** k\<close> is the integer \<open>2^k\<close> for \<open>k \<ge> 0\<close> and the float \<open>1 / 2^(-k)\<close> otherwise.
\<close>

definition f0_shifted :: "real list \<Rightarrow> int \<Rightarrow> real list" where
  "f0_shifted ff octave_shift = map (\<lambda>x. x * power_int 2 octave_shift) ff"

text \<open>
  \<^verbatim>\<open>loudness_floored = loudness_filtered * (loudness_filtered > loudness_floor) - loudness_floor\<close>:
  the mask is computed from the array it multiplies, so the shapes agree.
\<close>

definition loudness_floored :: "real list \<Rightarrow> real \<Rightarrow> real list" where
  "loudness_floored lf loudness_floor = map (\<lambda>x. mul_mask x (loudness_floor < x) - loudness_floor) lf"

text \<open>\<^verbatim>\<open>loudness_scaled = loudness_floored * loudness_scale\<close>\<close>

definition loudness_scaled :: "real list \<Rightarrow> real \<Rightarrow> real list" where
  "loudness_scaled lfl loudness_scale = map (\<lambda>x. x * loudness_scale) lfl"

text \<open>
  The normalisation \<open>(value - mean) / std\<close> with the statistics of the checkpoint.
  \<open>data_mean\<close> and \<open>data_std\<close> are loaded from the checkpoint; entry 0 is the pitch
  statistic and entry 1 the loudness statistic, here the two components of a pair.
\<close>

definition normalized :: "real \<Rightarrow> real \<Rightarrow> real \<Rightarrow> real" where
  "normalized m s x = (x - m) / s"

text \<open>\<^verbatim>\<open>loud_norm = (loudness_scaled - data_mean[1]) / data_std[1]\<close>\<close>

definition loud_norm :: "real list \<Rightarrow> real \<times> real \<Rightarrow> real \<times> real \<Rightarrow> real list" where
  "loud_norm ls data_mean data_std = map (normalized (snd data_mean) (snd data_std)) ls"

subsection \<open>The torch steps\<close>

text \<open>
  \<open>torch.nn.functional.conv1d\<close> for one batch entry and one channel, stride 1: the input
  row is padded with \<open>padding\<close> zeros on each side, and output \<open>i\<close> is the sum of the
  products of the weights with the padded entries \<open>i, i + 1, ...\<close> (a cross-correlation).
  Torch raises when the padded input is shorter than the kernel.
\<close>

definition conv1d :: "real list \<Rightarrow> real list \<Rightarrow> nat \<Rightarrow> error + real list" where
  "conv1d input weight padding =
     (let padded = replicate padding 0 @ input @ replicate padding 0 in
      if length padded < length weight then Inl RuntimeError
      else Inr (map (\<lambda>i. sum_list (map2 (*) weight (drop i padded)))
                  [0..<length padded - length weight + 1]))"

text \<open>
  \<open>t.expand(1, 1, -1)\<close>: a rank-one tensor of length \<open>T\<close> becomes a view of shape
  \<open>(1, 1, T)\<close>, given here by its only row; a rank-zero tensor has no axis for \<open>-1\<close> to
  keep, and torch raises.
\<close>

fun expand_1_1 :: "tensor \<Rightarrow> error + real list" where
  "expand_1_1 (T0 x) = Inl RuntimeError"
| "expand_1_1 (T1 xs) = Inr xs"

text \<open>
  \<open>squeeze()\<close> of a tensor of shape \<open>(1, 1, T)\<close>, given by its row: every axis of size one
  is dropped, so a single entry ends as a rank-zero tensor.
\<close>

definition squeeze :: "real list \<Rightarrow> tensor" where
  "squeeze row = (if length row = 1 then T0 (hd row) else T1 row)"

text \<open>
  The smoothing expression of both branches, for the radius \<open>r\<close>:
  \<^verbatim>\<open>conv1d(t.expand(1, 1, -1), torch.ones(1, 1, r * 2 + 1) / (r * 2 + 1), padding=r).squeeze()\<close>.
  \<open>torch.ones\<close> raises on a negative size, and \<open>r * 2 + 1\<close> is negative exactly when
  \<open>r\<close> is.
\<close>

definition smoothed :: "tensor \<Rightarrow> int \<Rightarrow> error + tensor" where
  "smoothed t r =
     (case expand_1_1 t of
        Inl e \<Rightarrow> Inl e
      | Inr row \<Rightarrow>
          if r * 2 + 1 < 0 then Inl RuntimeError
          else (case conv1d row (map (\<lambda>w. w / of_int (r * 2 + 1)) (replicate (nat (r * 2 + 1)) 1)) (nat r) of
                  Inl e \<Rightarrow> Inl e
                | Inr out \<Rightarrow> Inr (squeeze out)))"

text \<open>\<^verbatim>\<open>f0_norm_t = torch.tensor((f0_t.cpu() - data_mean[0]) / data_std[0]).float()\<close>\<close>

definition f0_norm_t :: "tensor \<Rightarrow> real \<times> real \<Rightarrow> real \<times> real \<Rightarrow> tensor" where
  "f0_norm_t t data_mean data_std = tmap (normalized (fst data_mean) (fst data_std)) t"

text \<open>
  \<^verbatim>\<open>control = torch.stack((f0_norm_t, loud_norm_t), dim=0)\<close>: torch raises unless both
  tensors have the same shape.
\<close>

fun control :: "tensor \<Rightarrow> tensor \<Rightarrow> error + stacked" where
  "control (T0 a) (T0 b) = Inr (S1 a b)"
| "control (T1 xs) (T1 ys) = (if length xs = length ys then Inr (S2 xs ys) else Inl RuntimeError)"
| "control (T0 a) (T1 ys) = Inl RuntimeError"
| "control (T1 xs) (T0 b) = Inl RuntimeError"

subsection \<open>The cell as a program on the notebook's globals\<close>

text \<open>
  The form fields of the cell. \<open>octave_shift\<close> and the two smoothing radii are integer
  sliders, the others are float sliders.
\<close>

record params =
  octave_shift :: int
  loudness_scale :: real
  loudness_floor :: real
  loudness_conf_filter :: real
  pitch_conf_filter :: real
  pitch_smoothing :: int
  loudness_smoothing :: int

text \<open>
  The globals the cell reads and writes. \<open>f0\<close>, \<open>confidence\<close> and \<open>loudness\<close> come from the
  feature extraction, \<open>data_mean\<close> and \<open>data_std\<close> from the checkpoint; the fields \<open>v_x\<close>
  are the variables \<open>x\<close> the cell assigns, \<open>None\<close> while unbound. No statement of the
  cell updates an array in place: every right-hand side builds a new array or tensor and
  binds it to a name, so a variable is modelled by the value it holds.
\<close>

record globals =
  f0 :: "real list"
  confidence :: "real list"
  loudness :: "real list"
  data_mean :: "real \<times> real"
  data_std :: "real \<times> real"
  v_f0_filtered :: "real list option"
  v_loudness_filtered :: "real list option"
  v_f0_shifted :: "real list option"
  v_loudness_floored :: "real list option"
  v_loudness_scaled :: "real list option"
  v_loud_norm :: "real list option"
  v_f0_t :: "tensor option"
  v_loud_norm_t :: "tensor option"
  v_f0_norm_t :: "tensor option"
  v_control :: "stacked option"

text \<open>Reading a variable, and sequencing two computations that may raise.\<close>

definition read :: "'a option \<Rightarrow> error + 'a" where
  "read v = (case v of None \<Rightarrow> Inl NameError | Some x \<Rightarrow> Inr x)"

definition and_then :: "error + 'a \<Rightarrow> ('a \<Rightarrow> error + 'b) \<Rightarrow> error + 'b" where
  "and_then m k = (case m of Inl e \<Rightarrow> Inl e | Inr x \<Rightarrow> k x)"

text \<open>The statements of the cell, in source order. A statement that raises assigns nothing.\<close>

definition assign_f0_filtered :: "params \<Rightarrow> globals \<Rightarrow> error + globals" where
  "assign_f0_filtered p g =
     and_then (f0_filtered (f0 g) (confidence g) (pitch_conf_filter p))
       (\<lambda>v. Inr (g\<lparr>v_f0_filtered := Some v\<rparr>))"

definition assign_loudness_filtered :: "params \<Rightarrow> globals \<Rightarrow> error + globals" where
  "assign_loudness_filtered p g =
     and_then (loudness_filtered (loudness g) (confidence g) (loudness_conf_filter p))
       (\<lambda>v. Inr (g\<lparr>v_loudness_filtered := Some v\<rparr>))"

definition assign_f0_shifted :: "params \<Rightarrow> globals \<Rightarrow> error + globals" where
  "assign_f0_shifted p g =
     and_then (read (v_f0_filtered g))
       (\<lambda>ff. Inr (g\<lparr>v_f0_shifted := Some (f0_shifted ff (octave_shift p))\<rparr>))"

definition assign_loudness_floored :: "params \<Rightarrow> globals \<Rightarrow> error + globals" where
  "assign_loudness_floored p g =
     and_then (read (v_loudness_filtered g))
       (\<lambda>lf. Inr (g\<lparr>v_loudness_floored := Some (loudness_floored lf (loudness_floor p))\<rparr>))"

definition assign_loudness_scaled :: "params \<Rightarrow> globals \<Rightarrow> error + globals" where
  "assign_loudness_scaled p g =
     and_then (read (v_loudness_floored g))
       (\<lambda>lfl. Inr (g\<lparr>v_loudness_scaled := Some (loudness_scaled lfl (loudness_scale p))\<rparr>))"

definition assign_loud_norm :: "params \<Rightarrow> globals \<Rightarrow> error + globals" where
  "assign_loud_norm p g =
     and_then (read (v_loudness_scaled g))
       (\<lambda>ls. Inr (g\<lparr>v_loud_norm := Some (loud_norm ls (data_mean g) (data_std g))\<rparr>))"

text \<open>\<^verbatim>\<open>f0_t = torch.tensor(f0_shifted, device=device).float()\<close>\<close>

definition assign_f0_t :: "params \<Rightarrow> globals \<Rightarrow> error + globals" where
  "assign_f0_t p g =
     and_then (read (v_f0_shifted g)) (\<lambda>fs. Inr (g\<lparr>v_f0_t := Some (T1 fs)\<rparr>))"

text \<open>\<^verbatim>\<open>loud_norm_t = torch.tensor(loud_norm, device=device).float()\<close>\<close>

definition assign_loud_norm_t :: "params \<Rightarrow> globals \<Rightarrow> error + globals" where
  "assign_loud_norm_t p g =
     and_then (read (v_loud_norm g)) (\<lambda>nl. Inr (g\<lparr>v_loud_norm_t := Some (T1 nl)\<rparr>))"

text \<open>\<^verbatim>\<open>if pitch_smoothing != 0: f0_t = conv1d(f0_t.expand(1, 1, -1), ...).squeeze()\<close>\<close>

definition smooth_pitch :: "params \<Rightarrow> globals \<Rightarrow> error + globals" where
  "smooth_pitch p g =
     (if pitch_smoothing p \<noteq> 0
      then and_then (read (v_f0_t g))
             (\<lambda>t. and_then (smoothed t (pitch_smoothing p)) (\<lambda>t'. Inr (g\<lparr>v_f0_t := Some t'\<rparr>)))
      else Inr g)"

definition assign_f0_norm_t :: "params \<Rightarrow> globals \<Rightarrow> error + globals" where
  "assign_f0_norm_t p g =
     and_then (read (v_f0_t g))
       (\<lambda>t. Inr (g\<lparr>v_f0_norm_t := Some (f0_norm_t t (data_mean g) (data_std g))\<rparr>))"

text \<open>\<^verbatim>\<open>if loudness_smoothing != 0: loud_norm_t = conv1d(loud_norm_t.expand(1, 1, -1), ...).squeeze()\<close>\<close>

definition smooth_loudness :: "params \<Rightarrow> globals \<Rightarrow> error + globals" where
  "smooth_loudness p g =
     (if loudness_smoothing p \<noteq> 0
      then and_then (read (v_loud_norm_t g))
             (\<lambda>t. and_then (smoothed t (loudness_smoothing p)) (\<lambda>t'. Inr (g\<lparr>v_loud_norm_t := Some t'\<rparr>)))
      else Inr g)"

definition assign_control :: "params \<Rightarrow> globals \<Rightarrow> error + globals" where
  "assign_control p g =
     and_then (read (v_f0_norm_t g))
       (\<lambda>a. and_then (read (v_loud_norm_t g))
          (\<lambda>b. and_then (control a b) (\<lambda>c. Inr (g\<lparr>v_control := Some c\<rparr>))))"

text \<open>
  Running statements in order: the first one that raises ends the run, and the globals
  keep what the earlier statements assigned.
\<close>

fun run :: "(globals \<Rightarrow> error + globals) list \<Rightarrow> globals \<Rightarrow> globals \<times> error option" where
  "run [] g = (g, None)"
| "run (s # ss) g = (case s g of Inl e \<Rightarrow> (g, Some e) | Inr g' \<Rightarrow> run ss g')"

text \<open>The cell. The source assigns \<open>f0_norm_t\<close> twice, after each smoothing branch.\<close>

definition adjust_control_signals :: "params \<Rightarrow> globals \<Rightarrow> globals \<times> error option" where
  "adjust_control_signals p =
     run [assign_f0_filtered p, assign_loudness_filtered p, assign_f0_shifted p,
          assign_loudness_floored p, assign_loudness_scaled p, assign_loud_norm p,
          assign_f0_t p, assign_loud_norm_t p,
          smooth_pitch p, assign_f0_norm_t p,
          smooth_loudness p, assign_f0_norm_t p,
          assign_control p]"

text \<open>
  The arguments of the synthesis call of the last cell,
  \<^verbatim>\<open>model(f0_t.expand(1, 1, -1), control.unsqueeze(0))\<close>: the row of the expanded \<open>f0_t\<close>
  and the control tensor, to which \<open>unsqueeze(0)\<close> adds a batch axis of size one.
\<close>

definition synthesis_arguments :: "globals \<Rightarrow> error + real list \<times> stacked" where
  "synthesis_arguments g =
     and_then (read (v_f0_t g))
       (\<lambda>t. and_then (expand_1_1 t)
          (\<lambda>row. and_then (read (v_control g)) (\<lambda>c. Inr (row, c))))"

subsection \<open>Notions for stating the properties\<close>

text \<open>
  Reading a sequence as if it were surrounded by zeros, and the mean of the window of
  radius \<open>n\<close> centred at frame \<open>i\<close>: the sum of the \<open>2 n + 1\<close> zero-padded entries
  \<open>i - n, ..., i + n\<close>, divided by the full window size.
\<close>

definition padded_at :: "real list \<Rightarrow> int \<Rightarrow> real" where
  "padded_at xs j = (if 0 \<le> j \<and> j < int (length xs) then xs ! nat j else 0)"

definition window_mean :: "real list \<Rightarrow> nat \<Rightarrow> nat \<Rightarrow> real" where
  "window_mean xs n i = (\<Sum>j<2 * n + 1. padded_at xs (int i + int j - int n)) / real (2 * n + 1)"

text \<open>The inputs of the cell: the extracted curves and the statistics of the checkpoint.\<close>

definition inputs :: "globals \<Rightarrow> real list \<times> real list \<times> real list \<times> (real \<times> real) \<times> (real \<times> real)" where
  "inputs g = (f0 g, confidence g, loudness g, data_mean g, data_std g)"

text \<open>
  Example inputs: the slider defaults of the notebook, the same with both smoothing radii
  set to 1, and a clip of three frames with no variable of the cell assigned yet.
\<close>

definition demo_params :: params where
  "demo_params = \<lparr>octave_shift = 1, loudness_scale = 0.5, loudness_floor = 0.06,
     loudness_conf_filter = 0, pitch_conf_filter = 0, pitch_smoothing = 0, loudness_smoothing = 0\<rparr>"

definition demo_globals :: globals where
  "demo_globals = \<lparr>f0 = [440, 440, 0], confidence = [0.9, 0.05, 0.9], loudness = [0.5, 0.02, 0.3],
     data_mean = (300, 0.1), data_std = (100, 0.2),
     v_f0_filtered = None, v_loudness_filtered = None, v_f0_shifted = None,
     v_loudness_floored = None, v_loudness_scaled = None, v_loud_norm = None,
     v_f0_t = None, v_loud_norm_t = None, v_f0_norm_t = None, v_control = None\<rparr>"

definition demo_smoothing :: params where
  "demo_smoothing = demo_params\<lparr>pitch_smoothing := 1, loudness_smoothing := 1\<rparr>"

text \<open>A clip of a single frame.\<close>

definition single_frame :: globals where
  "single_frame = demo_globals\<lparr>f0 := [440], confidence := [0.9], loudness := [0.5]\<rparr>"

section \<open>Properties\<close>

subsection \<open>The gating, shifting, flooring and normalising steps\<close>

text \<open>
  C1, as the specification states it, fails: a frame whose filtered loudness is positive
  but not above the floor is zeroed by the mask and then still offset, so its output is
  the bare negative floor (scaled), which is neither 0 nor its own value minus the floor.
\<close>

theorem C1_floor_counterexample:
  "loudness_scaled (loudness_floored [0.01] 0.06) 0.5 ! 0 \<noteq> 0
   \<and> loudness_scaled (loudness_floored [0.01] 0.06) 0.5 ! 0 \<noteq> (0.01 - 0.06) * 0.5
   \<and> loudness_scaled (loudness_floored [0.01] 0.06) 0.5 ! 0 = (- 0.06) * 0.5"
  by (simp add: loudness_scaled_def loudness_floored_def mul_mask_def)

text \<open>
  C1, amended. Loudness floor step: for every floor \<open>f\<close>, scale \<open>s\<close> and filtered loudness
  sequence, the output of a frame whose filtered loudness exceeds the floor is that
  loudness minus \<open>f\<close>, scaled; the output of every other frame is the negative floor
  \<open>- f\<close>, scaled (the floor gates and offsets).
\<close>

theorem C1_floor_gate_and_offset:
  "loudness_scaled (loudness_floored lf f) s =
     map (\<lambda>x. if f < x then (x - f) * s else (- f) * s) lf"
  by (simp add: loudness_scaled_def loudness_floored_def mul_mask_def)

text \<open>
  C2. Confidence gating: for every pitch threshold \<open>cp\<close> and loudness threshold \<open>cl\<close>, on
  sequences of one length, both filtered sequences exist and every frame whose confidence
  is at most the respective threshold has zero F0 in the filtered F0 sequence and zero
  loudness in the filtered loudness sequence.
\<close>

theorem C2_confidence_gating:
  assumes "length fs = length conf" and "length ls = length conf"
  shows "\<exists>ff lf. f0_filtered fs conf cp = Inr ff \<and> loudness_filtered ls conf cl = Inr lf
           \<and> length ff = length conf \<and> length lf = length conf
           \<and> (\<forall>i<length conf. (conf ! i \<le> cp \<longrightarrow> ff ! i = 0) \<and> (conf ! i \<le> cl \<longrightarrow> lf ! i = 0))"
  using assms
  by (simp add: f0_filtered_def loudness_filtered_def np_broadcast_def np_gt_def mul_mask_def)

theorem C2_confidence_gating_witness:
  "length [440, 220 :: real] = length [0.9, 0.05 :: real]
   \<and> length [0.5, 0.7 :: real] = length [0.9, 0.05 :: real]
   \<and> (\<exists>ff lf. f0_filtered [440, 220] [0.9, 0.05] 0.1 = Inr ff
         \<and> loudness_filtered [0.5, 0.7] [0.9, 0.05] 0.95 = Inr lf
         \<and> ff ! 1 = 0 \<and> lf ! 0 = 0 \<and> lf ! 1 = 0)"
proof -
  have h1: "length [440, 220 :: real] = length [0.9, 0.05 :: real]"
    and h2: "length [0.5, 0.7 :: real] = length [0.9, 0.05 :: real]"
    by simp_all
  obtain ff lf where
    r: "f0_filtered [440, 220] [0.9, 0.05] 0.1 = Inr ff"
       "loudness_filtered [0.5, 0.7] [0.9, 0.05] 0.95 = Inr lf"
    and z: "\<forall>i<length [0.9, 0.05 :: real].
              ([0.9, 0.05 :: real] ! i \<le> 0.1 \<longrightarrow> ff ! i = 0)
              \<and> ([0.9, 0.05 :: real] ! i \<le> 0.95 \<longrightarrow> lf ! i = 0)"
    using C2_confidence_gating [OF h1 h2, of "0.1" "0.95"] by blast
  from z [rule_format, of 0] z [rule_format, of 1]
  have "ff ! 1 = 0" "lf ! 0 = 0" "lf ! 1 = 0" by simp_all
  with r h1 h2 show ?thesis by blast
qed

text \<open>Frames whose confidence exceeds the threshold keep their value.\<close>

lemma f0_filtered_keeps:
  assumes "length fs = length conf" and "i < length conf" and "cp < conf ! i"
  shows "\<exists>ff. f0_filtered fs conf cp = Inr ff \<and> ff ! i = fs ! i"
  using assms by (simp add: f0_filtered_def np_broadcast_def np_gt_def mul_mask_def)

text \<open>
  C4. End-to-end gating scenario: for F0 = [440, 440, 0] with confidence
  [0.9, 0.05, 0.9] and pitch confidence threshold 0.1, the filtered F0 sequence is
  [440, 0, 0].
\<close>

theorem C4_gating_scenario:
  "f0_filtered [440, 440, 0] [0.9, 0.05, 0.9] 0.1 = Inr [440, 0, 0]"
  by (simp add: f0_filtered_def np_broadcast_def np_gt_def mul_mask_def)

text \<open>
  C5. Octave shift: the shift step multiplies every filtered F0 value by 2 to the power
  of the (integer) octave shift, that is by \<open>2 ^ k\<close> for \<open>k \<ge> 0\<close> and by \<open>1 / 2 ^ (- k)\<close>
  otherwise; with octave shift 0 it is the identity.
\<close>

theorem C5_octave_shift:
  "f0_shifted ff k = map (\<lambda>x. if 0 \<le> k then x * 2 ^ nat k else x / 2 ^ nat (- k)) ff
   \<and> f0_shifted ff 0 = ff"
  by (auto simp add: f0_shifted_def power_int_def field_simps)

text \<open>
  C7. Normalization round-trip: for every value \<open>x\<close>, every mean \<open>m\<close> and every nonzero
  standard deviation \<open>s\<close>, \<open>((x - m) / s) * s + m\<close> is \<open>x\<close>; the same holds entry by entry
  for the loudness and the pitch normalisation of the cell.
\<close>

theorem C7_normalization_round_trip:
  assumes "s \<noteq> 0"
  shows "normalized m s x * s + m = x
         \<and> map (\<lambda>y. y * s + m) (loud_norm ls (m', m) (s', s)) = ls
         \<and> tmap (\<lambda>y. y * s + m) (f0_norm_t t (m, m') (s, s')) = t"
  using assms
  by (cases t) (simp_all add: normalized_def loud_norm_def f0_norm_t_def comp_def)

theorem C7_normalization_round_trip_witness:
  "(2::real) \<noteq> 0
   \<and> normalized 3 2 7 * 2 + 3 = 7
   \<and> map (\<lambda>y. y * 2 + 3) (loud_norm [7, 1] (0, 3) (1, 2)) = [7, 1]
   \<and> tmap (\<lambda>y. y * 2 + 3) (f0_norm_t (T1 [7, 1]) (3, 0) (2, 1)) = T1 [7, 1]"
  using C7_normalization_round_trip [of 2 3 7 "[7, 1]" 0 1 "T1 [7, 1]"]
  by simp

subsection \<open>The moving average\<close>

lemma sum_list_box: "sum_list (map2 (*) (replicate k (c::real)) ys) = c * sum_list (take k ys)"
proof (induction k arbitrary: ys)
  case 0
  then show ?case by simp
next
  case (Suc k)
  then show ?case by (cases ys) (simp_all add: algebra_simps)
qed

lemma sum_list_take_nth: "k \<le> length ys \<Longrightarrow> sum_list (take k ys) = (\<Sum>j<k. ys ! j)"
  by (simp add: sum_list_sum_nth atLeast0LessThan)

lemma padded_nth:
  assumes "m < length xs + 2 * n"
  shows "(replicate n 0 @ xs @ replicate n 0) ! m = padded_at xs (int m - int n)"
proof -
  consider "m < n" | "n \<le> m" "m - n < length xs" | "n \<le> m" "length xs \<le> m - n" by linarith
  then show ?thesis
  proof cases
    case 1
    then show ?thesis by (simp add: nth_append padded_at_def)
  next
    case 2
    have l: "(replicate n 0 @ xs @ replicate n 0) ! m = xs ! (m - n)"
      using 2 by (simp add: nth_append)
    have c: "0 \<le> int m - int n \<and> int m - int n < int (length xs)"
      using 2 by linarith
    have e: "nat (int m - int n) = m - n"
      by linarith
    show ?thesis
      unfolding padded_at_def l by (simp only: c e if_True simp_thms)
  next
    case 3
    have l: "(replicate n 0 @ xs @ replicate n 0) ! m = 0"
      using 3 assms by (simp add: nth_append)
    have c: "\<not> (0 \<le> int m - int n \<and> int m - int n < int (length xs))"
      using 3 by linarith
    show ?thesis
      unfolding padded_at_def l by (simp only: c if_False)
  qed
qed


lemma conv1d_box:
  fixes c :: real
  assumes "xs \<noteq> []"
  shows "conv1d xs (replicate (2 * n + 1) c) n =
     Inr (map (\<lambda>i. c * (\<Sum>j<2 * n + 1. padded_at xs (int i + int j - int n))) [0..<length xs])"
proof -
  let ?p = "replicate n 0 @ xs @ replicate n 0"
  let ?w = "replicate (2 * n + 1) c"
  have lp: "length ?p = length xs + 2 * n" by simp
  have window: "sum_list (map2 (*) ?w (drop i ?p))
         = c * (\<Sum>j<2 * n + 1. padded_at xs (int i + int j - int n))" if "i < length xs" for i
  proof -
    have "sum_list (take (2 * n + 1) (drop i ?p)) = (\<Sum>j<2 * n + 1. drop i ?p ! j)"
      using that by (intro sum_list_take_nth) simp
    also have "\<dots> = (\<Sum>j<2 * n + 1. padded_at xs (int i + int j - int n))"
    proof (rule sum.cong)
      fix j assume "j \<in> {..<2 * n + 1}"
      then have b: "i + j < length xs + 2 * n" using that by simp
      have "drop i ?p ! j = ?p ! (i + j)"
        using that by (intro nth_drop) simp
      also have "\<dots> = padded_at xs (int (i + j) - int n)"
        using b by (rule padded_nth)
      finally show "drop i ?p ! j = padded_at xs (int i + int j - int n)"
        by (simp only: of_nat_add)
    qed (rule refl)
    finally show ?thesis by (simp only: sum_list_box)
  qed
  have range: "length ?p - length ?w + 1 = length xs"
    using assms by (cases xs) simp_all
  have short: "\<not> length ?p < length ?w"
    using assms by (cases xs) simp_all
  have "conv1d xs ?w n = Inr (map (\<lambda>i. sum_list (map2 (*) ?w (drop i ?p))) [0..<length xs])"
    unfolding conv1d_def Let_def by (simp only: short range if_False)
  also have "map (\<lambda>i. sum_list (map2 (*) ?w (drop i ?p))) [0..<length xs]
     = map (\<lambda>i. c * (\<Sum>j<2 * n + 1. padded_at xs (int i + int j - int n))) [0..<length xs]"
    by (rule map_cong) (simp_all only: window set_upt atLeastLessThan_iff)
  finally show ?thesis .
qed

lemma conv1d_empty: "conv1d [] (replicate (2 * n + 1) c) n = Inl RuntimeError"
  by (simp add: conv1d_def)

lemma smoothed_int:
  "smoothed (T1 xs) (int n) =
     (case conv1d xs (replicate (2 * n + 1) (1 / real (2 * n + 1))) n of
        Inl e \<Rightarrow> Inl e | Inr out \<Rightarrow> Inr (squeeze out))"
proof -
  have k: "nat (int n * 2 + 1) = 2 * n + 1" by linarith
  have d: "of_int (int n * 2 + 1) = real (2 * n + 1)" by simp
  have w: "map (\<lambda>w. w / of_int (int n * 2 + 1)) (replicate (nat (int n * 2 + 1)) 1)
            = replicate (2 * n + 1) (1 / real (2 * n + 1))"
    by (simp only: k d map_replicate)
  have nn: "\<not> int n * 2 + 1 < 0" by linarith
  show ?thesis
    unfolding smoothed_def expand_1_1.simps
    by (simp only: w nn if_False nat_int sum.case)
qed

lemma smoothed_T1:
  assumes "xs \<noteq> []"
  shows "smoothed (T1 xs) (int n) = Inr (squeeze (map (window_mean xs n) [0..<length xs]))"
proof -
  have m: "1 / real (2 * n + 1) * S = S / real (2 * n + 1)" for S :: real
    by simp
  have wm: "(\<lambda>i. (\<Sum>j<2 * n + 1. padded_at xs (int i + int j - int n)) / real (2 * n + 1))
             = window_mean xs n"
    by (rule ext) (simp only: window_mean_def)
  show ?thesis
    by (simp only: smoothed_int conv1d_box [OF assms] sum.case m wm)
qed

lemma smoothed_empty: "smoothed (T1 []) (int n) = Inl RuntimeError"
  by (simp only: smoothed_int conv1d_empty sum.case)

lemma smoothed_negative: "r < 0 \<Longrightarrow> smoothed t r = Inl RuntimeError"
  by (cases t) (simp_all add: smoothed_def)

lemma elems_squeeze: "elems (squeeze ys) = ys"
  by (cases ys) (auto simp: squeeze_def)

lemma squeeze_T1: "length ys \<noteq> 1 \<Longrightarrow> squeeze ys = T1 ys"
  by (simp add: squeeze_def)

text \<open>
  The zeros of the padding add nothing to the window sum: it is the sum of the frames of
  the sequence that lie in the window.
\<close>

lemma window_sum_in_range:
  "(\<Sum>j<2 * n + 1. padded_at xs (int i + int j - int n))
     = (\<Sum>k = i - n..<min (length xs) (i + n + 1). xs ! k)"
proof -
  let ?A = "{j. j < 2 * n + 1 \<and> n \<le> i + j \<and> i + j < length xs + n}"
  let ?B = "{i - n..<min (length xs) (i + n + 1)}"
  have "(\<Sum>j<2 * n + 1. padded_at xs (int i + int j - int n))
          = (\<Sum>j\<in>?A. padded_at xs (int i + int j - int n))"
  proof (rule sum.mono_neutral_right)
    show "\<forall>j\<in>{..<2 * n + 1} - ?A. padded_at xs (int i + int j - int n) = 0"
      by (auto simp: padded_at_def)
  qed auto
  also have "\<dots> = (\<Sum>j\<in>?A. xs ! (i + j - n))"
  proof (rule sum.cong)
    fix j assume "j \<in> ?A"
    then have "n \<le> i + j" "i + j < length xs + n" by simp_all
    then have "0 \<le> int i + int j - int n \<and> int i + int j - int n < int (length xs)"
      and "nat (int i + int j - int n) = i + j - n" by linarith+
    then show "padded_at xs (int i + int j - int n) = xs ! (i + j - n)"
      unfolding padded_at_def by (simp only: if_True simp_thms)
  qed (rule refl)
  also have "\<dots> = (\<Sum>k\<in>?B. xs ! k)"
    by (rule sum.reindex_bij_witness [where i = "\<lambda>k. k + n - i" and j = "\<lambda>j. i + j - n"]) auto
  finally show ?thesis .
qed

text \<open>
  On the empty sequence the padded input is shorter than the kernel and \<open>conv1d\<close> raises;
  a single frame is averaged as any other, and \<open>squeeze()\<close> then leaves a rank-zero tensor.
\<close>

lemma smoothed_single: "smoothed (T1 [x]) (int n) = Inr (T0 (window_mean [x] n 0))"
  by (simp add: smoothed_T1 squeeze_def)

text \<open>
  C10. Smoothing boundary behaviour: for every radius \<open>r > 0\<close> and every non-empty
  sequence, the moving average returns as many entries as the sequence has frames, and
  entry \<open>i\<close> is the mean of the zero-padded window of radius \<open>r\<close>: the sum of the frames
  \<open>max 0 (i - r), ..., min (T - 1) (i + r)\<close> that exist, divided by the full window size
  \<open>2 r + 1\<close> at every position, also within \<open>r\<close> frames of either end, where the zeros
  of the padding attenuate the mean. (A single frame comes back as a rank-zero tensor
  holding its one entry.)
\<close>

theorem C10_smoothing_zero_padded:
  assumes "0 < r" and "xs \<noteq> []"
  shows "\<exists>out. smoothed (T1 xs) r = Inr out
           \<and> length (elems out) = length xs
           \<and> (\<forall>i<length xs. elems out ! i = window_mean xs (nat r) i
                \<and> window_mean xs (nat r) i
                    = (\<Sum>k = i - nat r..<min (length xs) (i + nat r + 1). xs ! k) / real (2 * nat r + 1))"
proof -
  from assms(1) have r: "r = int (nat r)" by simp
  have "smoothed (T1 xs) (int (nat r)) = Inr (squeeze (map (window_mean xs (nat r)) [0..<length xs]))"
    using assms(2) by (rule smoothed_T1)
  with r have "smoothed (T1 xs) r = Inr (squeeze (map (window_mean xs (nat r)) [0..<length xs]))"
    by simp
  moreover have "window_mean xs (nat r) i
      = (\<Sum>k = i - nat r..<min (length xs) (i + nat r + 1). xs ! k) / real (2 * nat r + 1)" for i
    unfolding window_mean_def by (simp only: window_sum_in_range)
  ultimately show ?thesis
    by (simp add: elems_squeeze)
qed

text \<open>A constant sequence is attenuated at both ends: the window there holds one zero.\<close>

lemma smoothed_constant_example: "smoothed (T1 [3, 3, 3]) 1 = Inr (T1 [2, 3, 2])"
  by (simp add: smoothed_def conv1d_def squeeze_def eval_nat_numeral)

theorem C10_smoothing_zero_padded_witness:
  "(0::int) < 1 \<and> [3, 3, 3 :: real] \<noteq> []
   \<and> (\<exists>out. smoothed (T1 [3, 3, 3]) 1 = Inr out \<and> length (elems out) = length [3, 3, 3 :: real]
         \<and> elems out ! 0 = window_mean [3, 3, 3] (nat 1) 0 \<and> elems out ! 0 = 2
         \<and> elems out ! 1 = 3)"
proof -
  have h1: "(0::int) < 1" and h2: "[3, 3, 3 :: real] \<noteq> []" by simp_all
  obtain out where o: "smoothed (T1 [3, 3, 3]) 1 = Inr out"
    and l: "length (elems out) = length [3, 3, 3 :: real]"
    and w: "\<forall>i<length [3, 3, 3 :: real]. elems out ! i = window_mean [3, 3, 3] (nat 1) i
              \<and> window_mean [3, 3, 3] (nat 1) i
                  = (\<Sum>k = i - nat 1..<min (length [3, 3, 3 :: real]) (i + nat 1 + 1). [3, 3, 3 :: real] ! k)
                      / real (2 * nat 1 + 1)"
    using C10_smoothing_zero_padded [OF h1 h2] by blast
  from o have "out = T1 [2, 3, 2]" by (simp add: smoothed_constant_example)
  then have "elems out ! 0 = 2" "elems out ! 1 = 3" by simp_all
  moreover from w [rule_format, of 0] have "elems out ! 0 = window_mean [3, 3, 3] (nat 1) 0"
    by simp
  ultimately show ?thesis using h1 h2 o l by blast
qed

subsection \<open>The cell as a whole\<close>

text \<open>The statements of the cell, unfolded together.\<close>

lemmas stmt_defs = assign_f0_filtered_def assign_loudness_filtered_def assign_f0_shifted_def
  assign_loudness_floored_def assign_loudness_scaled_def assign_loud_norm_def assign_f0_t_def
  assign_loud_norm_t_def smooth_pitch_def assign_f0_norm_t_def smooth_loudness_def assign_control_def

text \<open>A run in which no step raises assigns every variable of the cell.\<close>

lemma adjust_completes:
  assumes "f0_filtered (f0 g) (confidence g) (pitch_conf_filter p) = Inr ff"
    and "loudness_filtered (loudness g) (confidence g) (loudness_conf_filter p) = Inr lf"
    and "fs = f0_shifted ff (octave_shift p)"
    and "nl = loud_norm (loudness_scaled (loudness_floored lf (loudness_floor p)) (loudness_scale p))
                (data_mean g) (data_std g)"
    and "(if pitch_smoothing p \<noteq> 0 then smoothed (T1 fs) (pitch_smoothing p) else Inr (T1 fs)) = Inr t"
    and "(if loudness_smoothing p \<noteq> 0 then smoothed (T1 nl) (loudness_smoothing p) else Inr (T1 nl)) = Inr lt"
    and "control (f0_norm_t t (data_mean g) (data_std g)) lt = Inr c"
  shows "adjust_control_signals p g =
     (g\<lparr>v_f0_filtered := Some ff, v_loudness_filtered := Some lf, v_f0_shifted := Some fs,
        v_loudness_floored := Some (loudness_floored lf (loudness_floor p)),
        v_loudness_scaled := Some (loudness_scaled (loudness_floored lf (loudness_floor p)) (loudness_scale p)),
        v_loud_norm := Some nl, v_f0_t := Some t, v_loud_norm_t := Some lt,
        v_f0_norm_t := Some (f0_norm_t t (data_mean g) (data_std g)), v_control := Some c\<rparr>, None)"
  using assms unfolding adjust_control_signals_def
  by (cases g) (simp add: stmt_defs and_then_def read_def split: if_splits)

text \<open>
  The cell as one expression: the five computations that can raise, in order, each with
  the globals it leaves behind.
\<close>

lemma adjust_unfolded:
  "adjust_control_signals p g =
     (case f0_filtered (f0 g) (confidence g) (pitch_conf_filter p) of
        Inl e \<Rightarrow> (g, Some e)
      | Inr ff \<Rightarrow>
     (case loudness_filtered (loudness g) (confidence g) (loudness_conf_filter p) of
        Inl e \<Rightarrow> (g\<lparr>v_f0_filtered := Some ff\<rparr>, Some e)
      | Inr lf \<Rightarrow>
     (let fs = f0_shifted ff (octave_shift p);
          lfl = loudness_floored lf (loudness_floor p);
          ls = loudness_scaled lfl (loudness_scale p);
          nl = loud_norm ls (data_mean g) (data_std g);
          g8 = g\<lparr>v_f0_filtered := Some ff, v_loudness_filtered := Some lf, v_f0_shifted := Some fs,
                 v_loudness_floored := Some lfl, v_loudness_scaled := Some ls, v_loud_norm := Some nl,
                 v_f0_t := Some (T1 fs), v_loud_norm_t := Some (T1 nl)\<rparr>
      in case (if pitch_smoothing p \<noteq> 0 then smoothed (T1 fs) (pitch_smoothing p) else Inr (T1 fs)) of
        Inl e \<Rightarrow> (g8, Some e)
      | Inr t \<Rightarrow>
     (let fn = f0_norm_t t (data_mean g) (data_std g);
          g10 = g8\<lparr>v_f0_t := Some t, v_f0_norm_t := Some fn\<rparr>
      in case (if loudness_smoothing p \<noteq> 0 then smoothed (T1 nl) (loudness_smoothing p) else Inr (T1 nl)) of
        Inl e \<Rightarrow> (g10, Some e)
      | Inr lt \<Rightarrow>
     (case control fn lt of
        Inl e \<Rightarrow> (g10\<lparr>v_loud_norm_t := Some lt\<rparr>, Some e)
      | Inr c \<Rightarrow> (g10\<lparr>v_loud_norm_t := Some lt, v_control := Some c\<rparr>, None))))))"
  unfolding adjust_control_signals_def
  by (cases g) (simp add: stmt_defs and_then_def read_def Let_def split: sum.splits)


text \<open>A run that ends without an error has passed all five.\<close>

lemma adjust_succeeded:
  assumes "snd (adjust_control_signals p g) = None"
  obtains ff lf t lt c where
      "f0_filtered (f0 g) (confidence g) (pitch_conf_filter p) = Inr ff"
      "loudness_filtered (loudness g) (confidence g) (loudness_conf_filter p) = Inr lf"
      "(if pitch_smoothing p \<noteq> 0 then smoothed (T1 (f0_shifted ff (octave_shift p))) (pitch_smoothing p)
        else Inr (T1 (f0_shifted ff (octave_shift p)))) = Inr t"
      "(if loudness_smoothing p \<noteq> 0
        then smoothed (T1 (loud_norm (loudness_scaled (loudness_floored lf (loudness_floor p)) (loudness_scale p))
                (data_mean g) (data_std g))) (loudness_smoothing p)
        else Inr (T1 (loud_norm (loudness_scaled (loudness_floored lf (loudness_floor p)) (loudness_scale p))
                (data_mean g) (data_std g)))) = Inr lt"
      "control (f0_norm_t t (data_mean g) (data_std g)) lt = Inr c"
  using assms unfolding adjust_unfolded Let_def
  by (auto split: sum.splits)

text \<open>
  What every statement of a list leaves unchanged, the run of the list leaves unchanged.
\<close>

lemma run_preserves:
  assumes "\<And>s g g'. s \<in> set ss \<Longrightarrow> s g = Inr g' \<Longrightarrow> proj g' = proj g"
  shows "proj (fst (run ss g)) = proj g"
  using assms
proof (induction ss arbitrary: g)
  case Nil
  then show ?case by simp
next
  case (Cons s ss)
  show ?case
  proof (cases "s g")
    case (Inl e)
    then show ?thesis by simp
  next
    case (Inr g')
    have "proj (fst (run ss g')) = proj g'"
    proof (rule Cons.IH)
      fix s' h h' assume "s' \<in> set ss" "s' h = Inr h'"
      then show "proj h' = proj h" using Cons.prems [of s' h h'] by simp
    qed
    moreover have "proj g' = proj g"
      using Cons.prems [of s g g'] Inr by simp
    ultimately show ?thesis using Inr by simp
  qed
qed

lemma statements_keep_inputs:
  assumes "s \<in> set [assign_f0_filtered p, assign_loudness_filtered p, assign_f0_shifted p,
          assign_loudness_floored p, assign_loudness_scaled p, assign_loud_norm p,
          assign_f0_t p, assign_loud_norm_t p,
          smooth_pitch p, assign_f0_norm_t p,
          smooth_loudness p, assign_f0_norm_t p,
          assign_control p]"
    and "s g = Inr g'"
  shows "inputs g' = inputs g"
proof -
  from assms(1) consider "s = assign_f0_filtered p" | "s = assign_loudness_filtered p"
    | "s = assign_f0_shifted p" | "s = assign_loudness_floored p" | "s = assign_loudness_scaled p"
    | "s = assign_loud_norm p" | "s = assign_f0_t p" | "s = assign_loud_norm_t p"
    | "s = smooth_pitch p" | "s = assign_f0_norm_t p" | "s = smooth_loudness p"
    | "s = assign_control p"
    by auto
  then show ?thesis
  proof cases
    case 1
    with assms(2) show ?thesis
      by (auto simp: assign_f0_filtered_def and_then_def inputs_def split: sum.splits)
  next
    case 2
    with assms(2) show ?thesis
      by (auto simp: assign_loudness_filtered_def and_then_def inputs_def split: sum.splits)
  next
    case 3
    with assms(2) show ?thesis
      by (auto simp: assign_f0_shifted_def and_then_def inputs_def split: sum.splits)
  next
    case 4
    with assms(2) show ?thesis
      by (auto simp: assign_loudness_floored_def and_then_def inputs_def split: sum.splits)
  next
    case 5
    with assms(2) show ?thesis
      by (auto simp: assign_loudness_scaled_def and_then_def inputs_def split: sum.splits)
  next
    case 6
    with assms(2) show ?thesis
      by (auto simp: assign_loud_norm_def and_then_def inputs_def split: sum.splits)
  next
    case 7
    with assms(2) show ?thesis
      by (auto simp: assign_f0_t_def and_then_def inputs_def split: sum.splits)
  next
    case 8
    with assms(2) show ?thesis
      by (auto simp: assign_loud_norm_t_def and_then_def inputs_def split: sum.splits)
  next
    case 9
    with assms(2) show ?thesis
      by (auto simp: smooth_pitch_def and_then_def inputs_def split: sum.splits if_splits)
  next
    case 10
    with assms(2) show ?thesis
      by (auto simp: assign_f0_norm_t_def and_then_def inputs_def split: sum.splits)
  next
    case 11
    with assms(2) show ?thesis
      by (auto simp: smooth_loudness_def and_then_def inputs_def split: sum.splits if_splits)
  next
    case 12
    with assms(2) show ?thesis
      by (auto simp: assign_control_def and_then_def inputs_def split: sum.splits)
  qed
qed

lemma adjust_keeps_inputs: "inputs (fst (adjust_control_signals p g)) = inputs g"
  unfolding adjust_control_signals_def
  by (rule run_preserves) (rule statements_keep_inputs [of _ p])

text \<open>
  The outcome depends on the inputs only: stale values of the assigned variables play no
  part.
\<close>

lemma adjust_same_inputs:
  assumes "inputs g2 = inputs g1"
  shows "snd (adjust_control_signals p g2) = snd (adjust_control_signals p g1)"
  using assms
  by (cases g1; cases g2) (simp add: adjust_unfolded Let_def inputs_def split: sum.split)

lemma adjust_same_outputs:
  assumes "inputs g2 = inputs g1" and "snd (adjust_control_signals p g1) = None"
  shows "fst (adjust_control_signals p g2) = fst (adjust_control_signals p g1)"
proof -
  obtain ff lf t lt c where
      "f0_filtered (f0 g1) (confidence g1) (pitch_conf_filter p) = Inr ff"
      "loudness_filtered (loudness g1) (confidence g1) (loudness_conf_filter p) = Inr lf"
      "(if pitch_smoothing p \<noteq> 0 then smoothed (T1 (f0_shifted ff (octave_shift p))) (pitch_smoothing p)
        else Inr (T1 (f0_shifted ff (octave_shift p)))) = Inr t"
      "(if loudness_smoothing p \<noteq> 0
        then smoothed (T1 (loud_norm (loudness_scaled (loudness_floored lf (loudness_floor p)) (loudness_scale p))
                (data_mean g1) (data_std g1))) (loudness_smoothing p)
        else Inr (T1 (loud_norm (loudness_scaled (loudness_floored lf (loudness_floor p)) (loudness_scale p))
                (data_mean g1) (data_std g1)))) = Inr lt"
      "control (f0_norm_t t (data_mean g1) (data_std g1)) lt = Inr c"
    using assms(2) by (rule adjust_succeeded)
  note eqs = this
  from assms(1) have i: "f0 g2 = f0 g1" "confidence g2 = confidence g1" "loudness g2 = loudness g1"
    "data_mean g2 = data_mean g1" "data_std g2 = data_std g1"
    by (simp_all add: inputs_def)
  have a1: "adjust_control_signals p g1 = (g1\<lparr>v_f0_filtered := Some ff, v_loudness_filtered := Some lf,
        v_f0_shifted := Some (f0_shifted ff (octave_shift p)),
        v_loudness_floored := Some (loudness_floored lf (loudness_floor p)),
        v_loudness_scaled := Some (loudness_scaled (loudness_floored lf (loudness_floor p)) (loudness_scale p)),
        v_loud_norm := Some (loud_norm (loudness_scaled (loudness_floored lf (loudness_floor p)) (loudness_scale p))
                (data_mean g1) (data_std g1)), v_f0_t := Some t, v_loud_norm_t := Some lt,
        v_f0_norm_t := Some (f0_norm_t t (data_mean g1) (data_std g1)), v_control := Some c\<rparr>, None)"
    using eqs by (intro adjust_completes) simp_all
  have a2: "adjust_control_signals p g2 = (g2\<lparr>v_f0_filtered := Some ff, v_loudness_filtered := Some lf,
        v_f0_shifted := Some (f0_shifted ff (octave_shift p)),
        v_loudness_floored := Some (loudness_floored lf (loudness_floor p)),
        v_loudness_scaled := Some (loudness_scaled (loudness_floored lf (loudness_floor p)) (loudness_scale p)),
        v_loud_norm := Some (loud_norm (loudness_scaled (loudness_floored lf (loudness_floor p)) (loudness_scale p))
                (data_mean g2) (data_std g2)), v_f0_t := Some t, v_loud_norm_t := Some lt,
        v_f0_norm_t := Some (f0_norm_t t (data_mean g2) (data_std g2)), v_control := Some c\<rparr>, None)"
    using eqs by (intro adjust_completes) (simp_all only: i)
  show ?thesis
    unfolding a1 a2 using i by (cases g1; cases g2) simp
qed

lemma adjust_rerun:
  "adjust_control_signals p (fst (adjust_control_signals p g)) = adjust_control_signals p g"
  by (cases g) (simp add: adjust_unfolded Let_def split: sum.split)

text \<open>The two example runs, evaluated.\<close>

lemmas step_defs = f0_filtered_def loudness_filtered_def np_broadcast_def np_gt_def mul_mask_def
  f0_shifted_def loudness_floored_def loudness_scaled_def loud_norm_def normalized_def f0_norm_t_def


lemma demo_run:
  "adjust_control_signals demo_params demo_globals =
    (demo_globals\<lparr>v_f0_filtered := Some [440, 440, 0], v_loudness_filtered := Some [0.5, 0.02, 0.3],
       v_f0_shifted := Some [880, 880, 0], v_loudness_floored := Some [0.44, -0.06, 0.24],
       v_loudness_scaled := Some [0.22, -0.03, 0.12], v_loud_norm := Some [0.6, -0.65, 0.1],
       v_f0_t := Some (T1 [880, 880, 0]), v_loud_norm_t := Some (T1 [0.6, -0.65, 0.1]),
       v_f0_norm_t := Some (T1 [5.8, 5.8, -3]), v_control := Some (S2 [5.8, 5.8, -3] [0.6, -0.65, 0.1])\<rparr>, None)"
  by (simp add: adjust_unfolded demo_params_def demo_globals_def step_defs Let_def)


lemma demo_smoothing_run:
  "adjust_control_signals demo_smoothing demo_globals =
    (demo_globals\<lparr>v_f0_filtered := Some [440, 440, 0], v_loudness_filtered := Some [0.5, 0.02, 0.3],
       v_f0_shifted := Some [880, 880, 0], v_loudness_floored := Some [0.44, -0.06, 0.24],
       v_loudness_scaled := Some [0.22, -0.03, 0.12], v_loud_norm := Some [0.6, -0.65, 0.1],
       v_f0_t := Some (T1 [1760 / 3, 1760 / 3, 880 / 3]), v_loud_norm_t := Some (T1 [- 1 / 60, 1 / 60, - 11 / 60]),
       v_f0_norm_t := Some (T1 [43 / 15, 43 / 15, - 1 / 15]),
       v_control := Some (S2 [43 / 15, 43 / 15, - 1 / 15] [- 1 / 60, 1 / 60, - 11 / 60])\<rparr>, None)"
  by (simp add: adjust_unfolded demo_smoothing_def demo_params_def demo_globals_def step_defs Let_def
        smoothed_def conv1d_def squeeze_def eval_nat_numeral)


text \<open>The globals after a run without an error.\<close>

lemma adjust_final:
  assumes "snd (adjust_control_signals p g) = None"
  obtains ff lf t lt c where
      "f0_filtered (f0 g) (confidence g) (pitch_conf_filter p) = Inr ff"
      "loudness_filtered (loudness g) (confidence g) (loudness_conf_filter p) = Inr lf"
      "(if pitch_smoothing p \<noteq> 0 then smoothed (T1 (f0_shifted ff (octave_shift p))) (pitch_smoothing p)
        else Inr (T1 (f0_shifted ff (octave_shift p)))) = Inr t"
      "(if loudness_smoothing p \<noteq> 0
        then smoothed (T1 (loud_norm (loudness_scaled (loudness_floored lf (loudness_floor p)) (loudness_scale p))
                (data_mean g) (data_std g))) (loudness_smoothing p)
        else Inr (T1 (loud_norm (loudness_scaled (loudness_floored lf (loudness_floor p)) (loudness_scale p))
                (data_mean g) (data_std g)))) = Inr lt"
      "control (f0_norm_t t (data_mean g) (data_std g)) lt = Inr c"
      "fst (adjust_control_signals p g) =
         g\<lparr>v_f0_filtered := Some ff, v_loudness_filtered := Some lf,
           v_f0_shifted := Some (f0_shifted ff (octave_shift p)),
           v_loudness_floored := Some (loudness_floored lf (loudness_floor p)),
           v_loudness_scaled := Some (loudness_scaled (loudness_floored lf (loudness_floor p)) (loudness_scale p)),
           v_loud_norm := Some (loud_norm (loudness_scaled (loudness_floored lf (loudness_floor p)) (loudness_scale p))
                (data_mean g) (data_std g)),
           v_f0_t := Some t, v_loud_norm_t := Some lt,
           v_f0_norm_t := Some (f0_norm_t t (data_mean g) (data_std g)), v_control := Some c\<rparr>"
proof -
  obtain ff lf t lt c where eqs:
      "f0_filtered (f0 g) (confidence g) (pitch_conf_filter p) = Inr ff"
      "loudness_filtered (loudness g) (confidence g) (loudness_conf_filter p) = Inr lf"
      "(if pitch_smoothing p \<noteq> 0 then smoothed (T1 (f0_shifted ff (octave_shift p))) (pitch_smoothing p)
        else Inr (T1 (f0_shifted ff (octave_shift p)))) = Inr t"
      "(if loudness_smoothing p \<noteq> 0
        then smoothed (T1 (loud_norm (loudness_scaled (loudness_floored lf (loudness_floor p)) (loudness_scale p))
                (data_mean g) (data_std g))) (loudness_smoothing p)
        else Inr (T1 (loud_norm (loudness_scaled (loudness_floored lf (loudness_floor p)) (loudness_scale p))
                (data_mean g) (data_std g)))) = Inr lt"
      "control (f0_norm_t t (data_mean g) (data_std g)) lt = Inr c"
    using assms by (rule adjust_succeeded)
  then have "fst (adjust_control_signals p g) =
         g\<lparr>v_f0_filtered := Some ff, v_loudness_filtered := Some lf,
           v_f0_shifted := Some (f0_shifted ff (octave_shift p)),
           v_loudness_floored := Some (loudness_floored lf (loudness_floor p)),
           v_loudness_scaled := Some (loudness_scaled (loudness_floored lf (loudness_floor p)) (loudness_scale p)),
           v_loud_norm := Some (loud_norm (loudness_scaled (loudness_floored lf (loudness_floor p)) (loudness_scale p))
                (data_mean g) (data_std g)),
           v_f0_t := Some t, v_loud_norm_t := Some lt,
           v_f0_norm_t := Some (f0_norm_t t (data_mean g) (data_std g)), v_control := Some c\<rparr>"
    by (subst adjust_completes [OF eqs(1) eqs(2) refl refl]) simp_all
  with eqs show ?thesis by (rule that)
qed

text \<open>
  C3. Pitch smoothing order: in a run that completes, when the pitch smoothing radius is
  nonzero \<open>f0_t\<close> is the moving average of the unnormalized, octave-shifted F0, and
  \<open>f0_norm_t\<close> is the normalization \<open>(value - mean) / std\<close> of that smoothed \<open>f0_t\<close>;
  \<open>loud_norm\<close> is the normalization of the scaled loudness, and when the loudness smoothing
  radius is nonzero \<open>loud_norm_t\<close> is the moving average of the normalized loudness.
\<close>

theorem C3_smoothing_order:
  assumes "snd (adjust_control_signals p g) = None"
  shows "\<exists>fs ls t lt.
      v_f0_shifted (fst (adjust_control_signals p g)) = Some fs
    \<and> v_f0_t (fst (adjust_control_signals p g)) = Some t
    \<and> (pitch_smoothing p \<noteq> 0 \<longrightarrow> smoothed (T1 fs) (pitch_smoothing p) = Inr t)
    \<and> v_f0_norm_t (fst (adjust_control_signals p g))
        = Some (tmap (normalized (fst (data_mean g)) (fst (data_std g))) t)
    \<and> v_loudness_scaled (fst (adjust_control_signals p g)) = Some ls
    \<and> v_loud_norm (fst (adjust_control_signals p g))
        = Some (map (normalized (snd (data_mean g)) (snd (data_std g))) ls)
    \<and> v_loud_norm_t (fst (adjust_control_signals p g)) = Some lt
    \<and> (loudness_smoothing p \<noteq> 0 \<longrightarrow>
          smoothed (T1 (map (normalized (snd (data_mean g)) (snd (data_std g))) ls)) (loudness_smoothing p)
            = Inr lt)"
  using assms
  by (rule adjust_final) (simp add: f0_norm_t_def loud_norm_def split: if_splits)


text \<open>
  The order is visible in the values: normalizing the example pitch first and smoothing
  afterwards would give other entries at both ends than the run below.
\<close>

lemma smoothing_order_matters:
  "smoothed (T1 (map (normalized 300 100) [880, 880, 0])) 1 = Inr (T1 [58 / 15, 43 / 15, 14 / 15])"
  by (simp add: smoothed_def conv1d_def squeeze_def normalized_def eval_nat_numeral)

theorem C3_smoothing_order_witness:
  "snd (adjust_control_signals demo_smoothing demo_globals) = None
   \<and> pitch_smoothing demo_smoothing \<noteq> 0 \<and> loudness_smoothing demo_smoothing \<noteq> 0
   \<and> smoothed (T1 [880, 880, 0]) 1 = Inr (T1 [1760 / 3, 1760 / 3, 880 / 3])
   \<and> v_f0_norm_t (fst (adjust_control_signals demo_smoothing demo_globals))
        = Some (tmap (normalized 300 100) (T1 [1760 / 3, 1760 / 3, 880 / 3]))
   \<and> smoothed (T1 (map (normalized 0.1 0.2) [0.22, -0.03, 0.12])) 1 = Inr (T1 [- 1 / 60, 1 / 60, - 11 / 60])"
proof -
  let ?g' = "fst (adjust_control_signals demo_smoothing demo_globals)"
  have h: "snd (adjust_control_signals demo_smoothing demo_globals) = None"
    by (simp add: demo_smoothing_run)
  have ps: "pitch_smoothing demo_smoothing = 1" "loudness_smoothing demo_smoothing = 1"
    and st: "data_mean demo_globals = (300, 0.1)" "data_std demo_globals = (100, 0.2)"
    by (simp_all add: demo_smoothing_def demo_params_def demo_globals_def)
  obtain fs ls t lt where
    "v_f0_shifted ?g' = Some fs" "v_f0_t ?g' = Some t"
    "pitch_smoothing demo_smoothing \<noteq> 0 \<longrightarrow> smoothed (T1 fs) (pitch_smoothing demo_smoothing) = Inr t"
    "v_f0_norm_t ?g' = Some (tmap (normalized (fst (data_mean demo_globals)) (fst (data_std demo_globals))) t)"
    "v_loudness_scaled ?g' = Some ls" "v_loud_norm_t ?g' = Some lt"
    "loudness_smoothing demo_smoothing \<noteq> 0 \<longrightarrow>
       smoothed (T1 (map (normalized (snd (data_mean demo_globals)) (snd (data_std demo_globals))) ls))
         (loudness_smoothing demo_smoothing) = Inr lt"
    using C3_smoothing_order [OF h] by blast
  then show ?thesis
    using h by (simp add: ps st demo_smoothing_run)
qed

text \<open>
  C6. Smoothing identity: with radius 0 the smoothing statement of either sequence is
  skipped, it leaves the globals as they are; so after a run that completes \<open>f0_t\<close> holds
  exactly the shifted F0 (pitch radius 0) and \<open>loud_norm_t\<close> exactly the normalized loudness
  (loudness radius 0).
\<close>

theorem C6_radius_zero_identity:
  "(pitch_smoothing p = 0 \<longrightarrow> smooth_pitch p g = Inr g)
   \<and> (loudness_smoothing p = 0 \<longrightarrow> smooth_loudness p g = Inr g)
   \<and> (snd (adjust_control_signals p g) = None \<longrightarrow>
        (pitch_smoothing p = 0 \<longrightarrow>
           (\<exists>fs. v_f0_shifted (fst (adjust_control_signals p g)) = Some fs
                \<and> v_f0_t (fst (adjust_control_signals p g)) = Some (T1 fs)))
      \<and> (loudness_smoothing p = 0 \<longrightarrow>
           (\<exists>nl. v_loud_norm (fst (adjust_control_signals p g)) = Some nl
                \<and> v_loud_norm_t (fst (adjust_control_signals p g)) = Some (T1 nl))))"
proof (intro conjI impI)
  assume "snd (adjust_control_signals p g) = None" and "pitch_smoothing p = 0"
  then show "\<exists>fs. v_f0_shifted (fst (adjust_control_signals p g)) = Some fs
                \<and> v_f0_t (fst (adjust_control_signals p g)) = Some (T1 fs)"
    by (elim adjust_final) simp
next
  assume "snd (adjust_control_signals p g) = None" and "loudness_smoothing p = 0"
  then show "\<exists>nl. v_loud_norm (fst (adjust_control_signals p g)) = Some nl
                \<and> v_loud_norm_t (fst (adjust_control_signals p g)) = Some (T1 nl)"
    by (elim adjust_final) simp
qed (simp_all add: smooth_pitch_def smooth_loudness_def)

theorem C6_radius_zero_identity_witness:
  "pitch_smoothing demo_params = 0 \<and> loudness_smoothing demo_params = 0
   \<and> snd (adjust_control_signals demo_params demo_globals) = None
   \<and> smooth_pitch demo_params demo_globals = Inr demo_globals
   \<and> smooth_loudness demo_params demo_globals = Inr demo_globals
   \<and> v_f0_shifted (fst (adjust_control_signals demo_params demo_globals)) = Some [880, 880, 0]
   \<and> v_f0_t (fst (adjust_control_signals demo_params demo_globals)) = Some (T1 [880, 880, 0])
   \<and> v_loud_norm (fst (adjust_control_signals demo_params demo_globals)) = Some [0.6, -0.65, 0.1]
   \<and> v_loud_norm_t (fst (adjust_control_signals demo_params demo_globals)) = Some (T1 [0.6, -0.65, 0.1])"
proof -
  have z: "pitch_smoothing demo_params = 0" "loudness_smoothing demo_params = 0"
    by (simp_all add: demo_params_def)
  have h: "snd (adjust_control_signals demo_params demo_globals) = None"
    by (simp add: demo_run)
  from C6_radius_zero_identity [of demo_params demo_globals] z h
  have "smooth_pitch demo_params demo_globals = Inr demo_globals"
    "smooth_loudness demo_params demo_globals = Inr demo_globals"
    "\<exists>fs. v_f0_shifted (fst (adjust_control_signals demo_params demo_globals)) = Some fs
        \<and> v_f0_t (fst (adjust_control_signals demo_params demo_globals)) = Some (T1 fs)"
    "\<exists>nl. v_loud_norm (fst (adjust_control_signals demo_params demo_globals)) = Some nl
        \<and> v_loud_norm_t (fst (adjust_control_signals demo_params demo_globals)) = Some (T1 nl)"
    by blast+
  then show ?thesis
    using z h by (simp add: demo_run)
qed

subsection \<open>The shape of the result\<close>

lemma length_np_gt: "length (np_gt xs c) = length xs"
  by (simp add: np_gt_def)

lemma filtered_same_length:
  assumes "length conf = length xs"
  shows "np_broadcast mul_mask xs (np_gt conf c) = Inr (map2 mul_mask xs (np_gt conf c))"
    and "length (map2 mul_mask xs (np_gt conf c)) = length xs"
  using assms by (simp_all add: np_broadcast_def length_np_gt)

lemma smoothed_if_T1:
  assumes "0 \<le> r" and "2 \<le> length xs \<or> r = 0"
  obtains ys where "(if r \<noteq> 0 then smoothed (T1 xs) r else Inr (T1 xs)) = Inr (T1 ys)"
    and "length ys = length xs"
proof (cases "r = 0")
  case True
  then show ?thesis by (intro that [of xs]) simp_all
next
  case False
  with assms have len: "2 \<le> length xs" and r: "r = int (nat r)" by simp_all
  let ?ys = "map (window_mean xs (nat r)) [0..<length xs]"
  from len have "xs \<noteq> []" by auto
  then have "smoothed (T1 xs) (int (nat r)) = Inr (squeeze ?ys)"
    by (rule smoothed_T1)
  moreover have "squeeze ?ys = T1 ?ys"
    using len by (intro squeeze_T1) simp
  ultimately have "smoothed (T1 xs) r = Inr (T1 ?ys)"
    using r by simp
  with False show ?thesis by (intro that [of ?ys]) simp_all
qed

text \<open>
  Where the control tensor has the shape \<open>2 \<times> T\<close>: for F0, confidence and loudness
  sequences of one length \<open>T\<close> and smoothing radii that are not negative, on clips of at
  least two frames, and on any clip when both radii are 0, the cell completes, the control
  tensor is the stack whose first row is \<open>f0_norm_t\<close> (the normalization of \<open>f0_t\<close>) and
  whose second row is \<open>loud_norm_t\<close>, and the unnormalized \<open>f0_t\<close>, of length \<open>T\<close>, is the
  first argument of the synthesis call, the control tensor the second.
\<close>

lemma control_shape:
  assumes "length (confidence g) = length (f0 g)" and "length (loudness g) = length (f0 g)"
    and "0 \<le> pitch_smoothing p" and "0 \<le> loudness_smoothing p"
    and "2 \<le> length (f0 g) \<or> (pitch_smoothing p = 0 \<and> loudness_smoothing p = 0)"
  shows "snd (adjust_control_signals p g) = None
    \<and> (\<exists>u a b. v_f0_t (fst (adjust_control_signals p g)) = Some (T1 u)
          \<and> v_f0_norm_t (fst (adjust_control_signals p g)) = Some (T1 a)
          \<and> v_loud_norm_t (fst (adjust_control_signals p g)) = Some (T1 b)
          \<and> v_control (fst (adjust_control_signals p g)) = Some (S2 a b)
          \<and> a = map (normalized (fst (data_mean g)) (fst (data_std g))) u
          \<and> length u = length (f0 g) \<and> length a = length (f0 g) \<and> length b = length (f0 g)
          \<and> synthesis_arguments (fst (adjust_control_signals p g)) = Inr (u, S2 a b))"
proof -
  let ?ff = "map2 mul_mask (f0 g) (np_gt (confidence g) (pitch_conf_filter p))"
  let ?lf = "map2 mul_mask (loudness g) (np_gt (confidence g) (loudness_conf_filter p))"
  let ?fs = "f0_shifted ?ff (octave_shift p)"
  let ?nl = "loud_norm (loudness_scaled (loudness_floored ?lf (loudness_floor p)) (loudness_scale p))
               (data_mean g) (data_std g)"
  have ff: "f0_filtered (f0 g) (confidence g) (pitch_conf_filter p) = Inr ?ff"
    and lff: "length ?ff = length (f0 g)"
    using assms(1) by (simp_all add: f0_filtered_def filtered_same_length length_np_gt)
  have lf: "loudness_filtered (loudness g) (confidence g) (loudness_conf_filter p) = Inr ?lf"
    and llf: "length ?lf = length (f0 g)"
    using assms(1,2) by (simp_all add: loudness_filtered_def filtered_same_length length_np_gt)
  have lfs: "length ?fs = length (f0 g)"
    using lff by (simp add: f0_shifted_def)
  have lnl: "length ?nl = length (f0 g)"
    using llf by (simp add: loud_norm_def loudness_scaled_def loudness_floored_def)
  obtain u where u: "(if pitch_smoothing p \<noteq> 0 then smoothed (T1 ?fs) (pitch_smoothing p) else Inr (T1 ?fs)) = Inr (T1 u)"
    and lu: "length u = length (f0 g)"
    using assms(3,5) lfs by (auto intro: smoothed_if_T1 [of "pitch_smoothing p" ?fs])
  obtain b where b: "(if loudness_smoothing p \<noteq> 0 then smoothed (T1 ?nl) (loudness_smoothing p) else Inr (T1 ?nl)) = Inr (T1 b)"
    and lb: "length b = length (f0 g)"
    using assms(4,5) lnl by (auto intro: smoothed_if_T1 [of "loudness_smoothing p" ?nl])
  let ?a = "map (normalized (fst (data_mean g)) (fst (data_std g))) u"
  have c: "control (f0_norm_t (T1 u) (data_mean g) (data_std g)) (T1 b) = Inr (S2 ?a b)"
    using lu lb by (simp add: f0_norm_t_def)
  note run = adjust_completes [OF ff lf refl refl u b c]
  show ?thesis
    unfolding run using lu lb
    by (simp add: f0_norm_t_def synthesis_arguments_def and_then_def read_def)
qed

lemma control_shape_example:
  "length (confidence demo_globals) = length (f0 demo_globals)
   \<and> length (loudness demo_globals) = length (f0 demo_globals)
   \<and> 0 \<le> pitch_smoothing demo_smoothing \<and> 0 \<le> loudness_smoothing demo_smoothing
   \<and> 2 \<le> length (f0 demo_globals)
   \<and> snd (adjust_control_signals demo_smoothing demo_globals) = None
   \<and> v_control (fst (adjust_control_signals demo_smoothing demo_globals))
        = Some (S2 [43 / 15, 43 / 15, - 1 / 15] [- 1 / 60, 1 / 60, - 11 / 60])
   \<and> synthesis_arguments (fst (adjust_control_signals demo_smoothing demo_globals))
        = Inr ([1760 / 3, 1760 / 3, 880 / 3], S2 [43 / 15, 43 / 15, - 1 / 15] [- 1 / 60, 1 / 60, - 11 / 60])"
proof -
  let ?g' = "fst (adjust_control_signals demo_smoothing demo_globals)"
  have h1: "length (confidence demo_globals) = length (f0 demo_globals)"
    and h2: "length (loudness demo_globals) = length (f0 demo_globals)"
    and h3: "0 \<le> pitch_smoothing demo_smoothing" and h4: "0 \<le> loudness_smoothing demo_smoothing"
    and h5: "2 \<le> length (f0 demo_globals)"
    by (simp_all add: demo_globals_def demo_smoothing_def demo_params_def)
  from h5 have h5': "2 \<le> length (f0 demo_globals)
      \<or> (pitch_smoothing demo_smoothing = 0 \<and> loudness_smoothing demo_smoothing = 0)" ..
  obtain u a b where "snd (adjust_control_signals demo_smoothing demo_globals) = None"
    and "v_f0_t ?g' = Some (T1 u)" and "v_control ?g' = Some (S2 a b)"
    and "synthesis_arguments ?g' = Inr (u, S2 a b)"
    using control_shape [OF h1 h2 h3 h4 h5'] by blast
  then show ?thesis
    using h1 h2 h3 h4 h5 by (simp add: demo_smoothing_run)
qed

text \<open>
  A clip of a single frame is the one place where the shape is lost. Without smoothing it
  gives the \<open>2 \<times> 1\<close> stack. With both radii nonzero \<open>squeeze()\<close> leaves two rank-zero
  rows, their stack is a vector of two entries, and the \<open>expand\<close> of the synthesis call
  raises.
\<close>

lemma single_frame_no_smoothing:
  "snd (adjust_control_signals demo_params single_frame) = None"
  "v_control (fst (adjust_control_signals demo_params single_frame)) = Some (S2 [5.8] [0.6])"
  "synthesis_arguments (fst (adjust_control_signals demo_params single_frame))
     = Inr ([880], S2 [5.8] [0.6])"
  by (simp_all add: adjust_unfolded single_frame_def demo_params_def demo_globals_def step_defs Let_def
        synthesis_arguments_def and_then_def read_def)

lemma single_frame_both_smoothings:
  "snd (adjust_control_signals demo_smoothing single_frame) = None"
  "v_control (fst (adjust_control_signals demo_smoothing single_frame)) = Some (S1 (- 1 / 15) (1 / 5))"
  "synthesis_arguments (fst (adjust_control_signals demo_smoothing single_frame)) = Inl RuntimeError"
  by (simp_all add: adjust_unfolded single_frame_def demo_smoothing_def demo_params_def demo_globals_def
        step_defs Let_def smoothed_def conv1d_def squeeze_def eval_nat_numeral
        synthesis_arguments_def and_then_def read_def)

text \<open>
  C8. Output shape: the claim asks for the \<open>2 \<times> T\<close> stack of the normalized F0 and the
  normalized loudness, with \<open>T\<close> the length of the F0 sequence, and for the unnormalized
  F0 to be passed to the synthesis call. On the single-frame clip with the slider defaults
  and pitch smoothing radius 1 the cell does not do so: \<open>squeeze()\<close>, meant to drop the two
  axes that \<open>expand(1, 1, -1)\<close> added, drops the frame axis too, \<open>f0_t\<close> is left a rank-zero
  tensor, \<open>torch.stack\<close> raises on the rank-zero \<open>f0_norm_t\<close> and the rank-one
  \<open>loud_norm_t\<close>, no control tensor is assigned, and the \<open>expand\<close> of the synthesis call
  raises on \<open>f0_t\<close>. The same clip with radius 0 gives the \<open>2 \<times> 1\<close> stack and passes
  \<open>f0_t\<close> on.
\<close>

theorem C8_single_frame_failure:
  "length (confidence single_frame) = length (f0 single_frame)
   \<and> length (loudness single_frame) = length (f0 single_frame)
   \<and> v_control (fst (adjust_control_signals demo_params single_frame)) = Some (S2 [5.8] [0.6])
   \<and> snd (adjust_control_signals (demo_params\<lparr>pitch_smoothing := 1\<rparr>) single_frame) = Some RuntimeError
   \<and> v_f0_t (fst (adjust_control_signals (demo_params\<lparr>pitch_smoothing := 1\<rparr>) single_frame))
        = Some (T0 (880 / 3))
   \<and> v_loud_norm_t (fst (adjust_control_signals (demo_params\<lparr>pitch_smoothing := 1\<rparr>) single_frame))
        = Some (T1 [0.6])
   \<and> v_control (fst (adjust_control_signals (demo_params\<lparr>pitch_smoothing := 1\<rparr>) single_frame)) = None
   \<and> synthesis_arguments (fst (adjust_control_signals (demo_params\<lparr>pitch_smoothing := 1\<rparr>) single_frame))
        = Inl RuntimeError"
  by (simp add: adjust_unfolded single_frame_def demo_params_def demo_globals_def step_defs Let_def
        smoothed_def conv1d_def squeeze_def eval_nat_numeral
        synthesis_arguments_def and_then_def read_def)

subsection \<open>Inputs and reruns\<close>

text \<open>
  C9. Input preservation and recomputability: a run of the cell, completed or not, leaves
  \<open>f0\<close>, \<open>confidence\<close>, \<open>loudness\<close>, \<open>data_mean\<close> and \<open>data_std\<close> unchanged; running the cell
  again with the same parameters gives the same globals and the same outcome; and from any
  two states of the notebook with the same inputs the cell ends in the same outcome, with
  identical globals when it completes.
\<close>

theorem C9_inputs_preserved:
  assumes "inputs g2 = inputs g1"
  shows "f0 (fst (adjust_control_signals p g1)) = f0 g1
    \<and> confidence (fst (adjust_control_signals p g1)) = confidence g1
    \<and> loudness (fst (adjust_control_signals p g1)) = loudness g1
    \<and> data_mean (fst (adjust_control_signals p g1)) = data_mean g1
    \<and> data_std (fst (adjust_control_signals p g1)) = data_std g1
    \<and> adjust_control_signals p (fst (adjust_control_signals p g1)) = adjust_control_signals p g1
    \<and> snd (adjust_control_signals p g2) = snd (adjust_control_signals p g1)
    \<and> (snd (adjust_control_signals p g1) = None \<longrightarrow>
          fst (adjust_control_signals p g2) = fst (adjust_control_signals p g1))"
proof -
  have "inputs (fst (adjust_control_signals p g1)) = inputs g1"
    by (rule adjust_keeps_inputs)
  then have "f0 (fst (adjust_control_signals p g1)) = f0 g1"
    "confidence (fst (adjust_control_signals p g1)) = confidence g1"
    "loudness (fst (adjust_control_signals p g1)) = loudness g1"
    "data_mean (fst (adjust_control_signals p g1)) = data_mean g1"
    "data_std (fst (adjust_control_signals p g1)) = data_std g1"
    by (simp_all add: inputs_def)
  moreover note adjust_rerun [of p g1] adjust_same_inputs [OF assms, of p]
  moreover have "snd (adjust_control_signals p g1) = None \<longrightarrow>
          fst (adjust_control_signals p g2) = fst (adjust_control_signals p g1)"
    using adjust_same_outputs [OF assms] by blast
  ultimately show ?thesis by blast
qed


theorem C9_inputs_preserved_witness:
  "inputs (demo_globals\<lparr>v_f0_t := Some (T0 7), v_control := Some (S1 1 2)\<rparr>) = inputs demo_globals
   \<and> f0 (fst (adjust_control_signals demo_params demo_globals)) = [440, 440, 0]
   \<and> confidence (fst (adjust_control_signals demo_params demo_globals)) = [0.9, 0.05, 0.9]
   \<and> loudness (fst (adjust_control_signals demo_params demo_globals)) = [0.5, 0.02, 0.3]
   \<and> adjust_control_signals demo_params (fst (adjust_control_signals demo_params demo_globals))
        = adjust_control_signals demo_params demo_globals
   \<and> snd (adjust_control_signals demo_params demo_globals) = None
   \<and> adjust_control_signals demo_params (demo_globals\<lparr>v_f0_t := Some (T0 7), v_control := Some (S1 1 2)\<rparr>)
        = adjust_control_signals demo_params demo_globals"
proof -
  let ?g2 = "demo_globals\<lparr>v_f0_t := Some (T0 7), v_control := Some (S1 1 2)\<rparr>"
  have h: "inputs ?g2 = inputs demo_globals"
    by (simp add: inputs_def)
  have s: "snd (adjust_control_signals demo_params demo_globals) = None"
    by (simp add: demo_run)
  have v: "f0 demo_globals = [440, 440, 0]" "confidence demo_globals = [0.9, 0.05, 0.9]"
    "loudness demo_globals = [0.5, 0.02, 0.3]"
    by (simp_all add: demo_globals_def)
  from C9_inputs_preserved [OF h, of demo_params] s
  have "f0 (fst (adjust_control_signals demo_params demo_globals)) = f0 demo_globals"
    "confidence (fst (adjust_control_signals demo_params demo_globals)) = confidence demo_globals"
    "loudness (fst (adjust_control_signals demo_params demo_globals)) = loudness demo_globals"
    "adjust_control_signals demo_params (fst (adjust_control_signals demo_params demo_globals))
        = adjust_control_signals demo_params demo_globals"
    "snd (adjust_control_signals demo_params ?g2) = snd (adjust_control_signals demo_params demo_globals)"
    "fst (adjust_control_signals demo_params ?g2) = fst (adjust_control_signals demo_params demo_globals)"
    by blast+
  then show ?thesis
    using h s by (simp add: v prod_eq_iff)
qed


end
